theory Spec2Isabelle
  imports Main
begin

section \<open>The halibot IRC agent (irc.py)\<close>

text \<open>
  The module defines two classes. \<open>IrcAgent\<close> holds the configuration, builds the
  client and relays host messages; \<open>IrcClient\<close> extends the pydle client with the
  event handlers and the WHOIS cache. The pydle operations \<open>join\<close>, \<open>whois\<close> and the
  host's \<open>dispatch\<close> are external: a call to one of them is recorded in a trace, and
  the answer of \<open>whois\<close> is a parameter of every handler. Each handler is a coroutine
  that is run to completion here; the interleaving of several handlers at an
  \<open>await\<close> is outside this development.
\<close>

subsection \<open>Data\<close>

text \<open>Python exceptions that the module's own expressions can raise.\<close>

datatype py_error = KeyError string | TypeError

text \<open>A value of the configuration dict: a string, an integer, a boolean or a list of strings.\<close>

datatype cfg_val = VStr string | VInt int | VBool bool | VList "string list"

type_synonym options = "string \<rightharpoonup> cfg_val"

text \<open>Python truthiness, as used by \<open>if self.options['tls']:\<close>.\<close>

fun truthy :: "cfg_val \<Rightarrow> bool" where
  "truthy (VStr s) = (s \<noteq> [])"
| "truthy (VInt i) = (i \<noteq> 0)"
| "truthy (VBool b) = b"
| "truthy (VList xs) = (xs \<noteq> [])"

text \<open>\<open>d[k]\<close>: the value, or \<open>KeyError\<close>.\<close>

definition subscript :: "(string \<rightharpoonup> 'v) \<Rightarrow> string \<Rightarrow> py_error + 'v" where
  "subscript d k = (case d k of None \<Rightarrow> Inl (KeyError k) | Some v \<Rightarrow> Inr v)"

text \<open>\<open>d.pop(k)\<close> with no default: removes the key, or raises \<open>KeyError\<close>.\<close>

definition pop :: "(string \<rightharpoonup> 'v) \<Rightarrow> string \<Rightarrow> py_error + (string \<rightharpoonup> 'v)" where
  "pop d k = (case d k of None \<Rightarrow> Inl (KeyError k) | Some v \<Rightarrow> Inr (d(k := None)))"

text \<open>The record a WHOIS query returns, as far as \<open>identity\<close> reads it.\<close>

record whois_info =
  identified :: bool
  account :: "string option"

text \<open>
  The \<open>identity\<close> argument of a \<open>Message\<close>: the value a finished \<open>identity(nick)\<close>
  returned, or the coroutine object of a call \<open>identity(nick)\<close> that was never awaited.
\<close>

datatype identity_value = Resolved "string option" | Coroutine string

record message =
  body :: string
  author :: string
  msg_identity :: identity_value
  origin :: string

text \<open>The calls to external operations, in the order they are made.\<close>

datatype effect = Join string | Whois string | Dispatch message

text \<open>
  \<open>whois_cache = {}\<close> stands in the body of class \<open>IrcClient\<close>, and no method assigns
  \<open>self.whois_cache\<close>: there is one dict, the class attribute, and \<open>self.whois_cache\<close>
  reads it for every instance. It is therefore a field of the state all clients
  share, not of a client.
\<close>

record irc_state =
  whois_cache :: "string \<rightharpoonup> whois_info"
  trace :: "effect list"

text \<open>The state when the class body has been executed and nothing else.\<close>

definition initial_state :: irc_state where
  "initial_state = \<lparr>whois_cache = Map.empty, trace = []\<rparr>"

record irc_agent =
  name :: string
  config :: options

text \<open>The keyword arguments \<open>init\<close> passes to \<open>IrcClient(...)\<close>.\<close>

record client_args =
  nickname :: cfg_val
  tls_certificate_file :: "cfg_val option"
  tls_certificate_keyfile :: "cfg_val option"
  tls_certificate_password :: "cfg_val option"
  sasl_username :: "cfg_val option"
  sasl_password :: "cfg_val option"
  sasl_identity :: "cfg_val option"

record irc_client =
  args :: client_args
  agent :: irc_agent

subsection \<open>IrcClient\<close>

definition join :: "string \<Rightarrow> irc_state \<Rightarrow> irc_state" where
  "join c s = s\<lparr>trace := trace s @ [Join c]\<rparr>"

definition dispatch :: "message \<Rightarrow> irc_state \<Rightarrow> irc_state" where
  "dispatch m s = s\<lparr>trace := trace s @ [Dispatch m]\<rparr>"

text \<open>The loop \<open>for c in channel: await self.join(c)\<close>.\<close>

fun join_each :: "string list \<Rightarrow> irc_state \<Rightarrow> irc_state" where
  "join_each [] s = s"
| "join_each (c # cs) s = join_each cs (join c s)"

definition on_connect :: "irc_client \<Rightarrow> irc_state \<Rightarrow> py_error + irc_state" where
  "on_connect self s =
     (case subscript (config (agent self)) ''channel'' of
        Inl e \<Rightarrow> Inl e
      | Inr (VStr c) \<Rightarrow> Inr (join c s)
      | Inr (VList cs) \<Rightarrow> Inr (join_each cs s)
      | Inr _ \<Rightarrow> Inl TypeError)"

definition on_quit :: "string \<Rightarrow> string \<Rightarrow> irc_state \<Rightarrow> py_error + irc_state" where
  "on_quit channel user s =
     (if user \<in> dom (whois_cache s)
      then (case pop (whois_cache s) user of
              Inl e \<Rightarrow> Inl e
            | Inr d \<Rightarrow> Inr (s\<lparr>whois_cache := d\<rparr>))
      else Inr s)"

definition on_nick_change :: "string \<Rightarrow> string \<Rightarrow> irc_state \<Rightarrow> py_error + irc_state" where
  "on_nick_change old new s =
     (case (if old \<in> dom (whois_cache s)
            then (case pop (whois_cache s) old of
                    Inl e \<Rightarrow> Inl e
                  | Inr d \<Rightarrow> Inr (s\<lparr>whois_cache := d\<rparr>))
            else Inr s) of
        Inl e \<Rightarrow> Inl e
      | Inr s1 \<Rightarrow>
          (if new \<in> dom (whois_cache s1)
           then (case pop (whois_cache s1) new of
                   Inl e \<Rightarrow> Inl e
                 | Inr d \<Rightarrow> Inr (s1\<lparr>whois_cache := d\<rparr>))
           else Inr s1))"

text \<open>
  \<open>identity\<close>, awaited. \<open>whois\<close> is the answer the server gives to a query over this
  connection at the time of the call.
\<close>

definition identity ::
  "(string \<Rightarrow> whois_info) \<Rightarrow> string \<Rightarrow> irc_state \<Rightarrow> py_error + (string option \<times> irc_state)" where
  "identity whois nick s =
     (let s1 = (if nick \<notin> dom (whois_cache s)
                then s\<lparr>whois_cache := (whois_cache s)(nick \<mapsto> whois nick),
                       trace := trace s @ [Whois nick]\<rparr>
                else s)
      in case subscript (whois_cache s1) nick of
           Inl e \<Rightarrow> Inl e
         | Inr r \<Rightarrow> if identified r then Inr (account r, s1) else Inr (None, s1))"

definition on_channel_message ::
  "(string \<Rightarrow> whois_info) \<Rightarrow> irc_client \<Rightarrow> string \<Rightarrow> string \<Rightarrow> string \<Rightarrow> irc_state
     \<Rightarrow> py_error + irc_state" where
  "on_channel_message whois self target by text s =
     (let org = name (agent self) @ ''/'' @ target
      in case identity whois by s of
           Inl e \<Rightarrow> Inl e
         | Inr (i, s1) \<Rightarrow>
             Inr (dispatch \<lparr>body = text, author = by, msg_identity = Resolved i, origin = org\<rparr> s1))"

text \<open>
  \<open>identity=self.identity(by)\<close> has no \<open>await\<close>: the call builds a coroutine object
  and runs none of the body of \<open>identity\<close>.
\<close>

definition on_private_message ::
  "irc_client \<Rightarrow> string \<Rightarrow> string \<Rightarrow> irc_state \<Rightarrow> py_error + irc_state" where
  "on_private_message self by text s =
     (let org = name (agent self) @ ''/'' @ by
      in Inr (dispatch \<lparr>body = text, author = by, msg_identity = Coroutine by, origin = org\<rparr> s))"

subsection \<open>Handler calls in sequence\<close>

text \<open>
  The ways control enters \<open>IrcClient\<close>: pydle calls one of the five event handlers, or
  \<open>identity\<close> is called and awaited.
\<close>

datatype handler_call =
    OnConnect
  | OnQuit string string
  | OnNickChange string string
  | Identity string
  | OnChannelMessage string string string
  | OnPrivateMessage string string

fun run_handler ::
  "(string \<Rightarrow> whois_info) \<Rightarrow> irc_client \<Rightarrow> handler_call \<Rightarrow> irc_state \<Rightarrow> py_error + irc_state" where
  "run_handler whois self OnConnect s = on_connect self s"
| "run_handler whois self (OnQuit channel user) s = on_quit channel user s"
| "run_handler whois self (OnNickChange old new) s = on_nick_change old new s"
| "run_handler whois self (Identity nick) s =
     (case identity whois nick s of Inl e \<Rightarrow> Inl e | Inr (r, s1) \<Rightarrow> Inr s1)"
| "run_handler whois self (OnChannelMessage target by text) s =
     on_channel_message whois self target by text s"
| "run_handler whois self (OnPrivateMessage by text) s = on_private_message self by text s"




text \<open>The messages handed to the host, in order.\<close>

fun dispatched :: "effect list \<Rightarrow> message list" where
  "dispatched [] = []"
| "dispatched (Dispatch m # es) = m # dispatched es"
| "dispatched (_ # es) = dispatched es"

subsection \<open>IrcAgent\<close>

text \<open>
  Modelled from the spec: the methods \<open>optionString\<close>, \<open>optionInt\<close> and
  \<open>optionBoolean\<close> of halibot's \<open>HalConfigurer\<close> are not under src/. Each collects one
  value of the configuration surface: it prompts, takes the default when the user
  enters nothing, and stores the value, when there is one, under its key in
  \<open>self.options\<close>. What the user enters is given per prompt.
\<close>

record answers =
  strings :: "string \<Rightarrow> string option"
  ints :: "string \<Rightarrow> int option"
  booleans :: "string \<Rightarrow> bool option"

definition store :: "string \<Rightarrow> cfg_val option \<Rightarrow> options \<Rightarrow> options" where
  "store key v opts = (case v of None \<Rightarrow> opts | Some x \<Rightarrow> opts(key \<mapsto> x))"

definition entered :: "'a option \<Rightarrow> 'a option \<Rightarrow> 'a option" where
  "entered a default' = (case a of None \<Rightarrow> default' | Some v \<Rightarrow> Some v)"

definition optionString ::
  "answers \<Rightarrow> string \<Rightarrow> string \<Rightarrow> string option \<Rightarrow> options \<Rightarrow> options" where
  "optionString ask key prompt default' opts =
     store key (map_option VStr (entered (strings ask prompt) default')) opts"

definition optionInt ::
  "answers \<Rightarrow> string \<Rightarrow> string \<Rightarrow> int option \<Rightarrow> options \<Rightarrow> options" where
  "optionInt ask key prompt default' opts =
     store key (map_option VInt (entered (ints ask prompt) default')) opts"

definition optionBoolean ::
  "answers \<Rightarrow> string \<Rightarrow> string \<Rightarrow> bool option \<Rightarrow> options \<Rightarrow> options" where
  "optionBoolean ask key prompt default' opts =
     store key (map_option VBool (entered (booleans ask prompt) default')) opts"

text \<open>\<open>Configurer.configure\<close>, lines 22 to 28: the TLS options.\<close>

definition configure_tls :: "answers \<Rightarrow> options \<Rightarrow> py_error + options" where
  "configure_tls ask opts =
     (let o1 = optionBoolean ask ''tls'' ''Enable TLS'' (Some True) opts
      in case subscript o1 ''tls'' of
           Inl e \<Rightarrow> Inl e
         | Inr tls \<Rightarrow>
             if truthy tls
             then (let o2 = optionBoolean ask ''tls-verify'' ''Verify server TLS certificate''
                              (Some False) o1
                   in case subscript o2 ''tls-verify'' of
                        Inl e \<Rightarrow> Inl e
                      | Inr verify \<Rightarrow>
                          if truthy verify
                          then (let o3 = optionString ask ''tls-certificate-file''
                                           ''TLS certificate file'' None o2;
                                    o4 = optionString ask ''tls-certificate-keyfile''
                                           ''TLS certificate keyfile'' None o3;
                                    o5 = optionString ask ''tls-certificate-file''
                                           ''TLS certificate password'' None o4
                                in Inr o5)
                          else Inr o2)
             else Inr o1)"

text \<open>Lines 30 to 33: the SASL options.\<close>

definition configure_sasl :: "answers \<Rightarrow> options \<Rightarrow> options" where
  "configure_sasl ask opts =
     (let o1 = optionString ask ''sasl-username'' ''SASL username'' None opts
      in if ''sasl-username'' \<in> dom o1
         then (let o2 = optionString ask ''sasl-password'' ''SASL password'' None o1;
                   o3 = optionString ask ''sasl-identity'' ''SASL identity'' None o2
               in o3)
         else o1)"

definition configure :: "answers \<Rightarrow> options \<Rightarrow> py_error + options" where
  "configure ask opts =
     (let o1 = optionString ask ''nickname'' ''Nickname'' (Some ''halibot'') opts;
          o2 = optionString ask ''hostname'' ''Server hostname'' (Some ''irc.libera.chat'') o1;
          o3 = optionInt ask ''port'' ''Server port'' (Some 6697) o2;
          o4 = optionString ask ''channel'' ''Channel to join'' None o3
      in case configure_tls ask o4 of
           Inl e \<Rightarrow> Inl e
         | Inr o5 \<Rightarrow> Inr (configure_sasl ask o5))"

text \<open>
  \<open>IrcAgent.init\<close>: \<open>self.config['nickname']\<close> raises when the key is missing,
  \<open>self.config.get(k)\<close> gives \<open>None\<close>. The client is built from the keyword arguments
  and given the handle to its agent; the class defines no constructor of its own, so
  building a client changes nothing of the class attribute \<open>whois_cache\<close>. The thread
  the client is then started in is not part of this development.
\<close>

definition init :: "irc_agent \<Rightarrow> py_error + irc_client" where
  "init self =
     (case subscript (config self) ''nickname'' of
        Inl e \<Rightarrow> Inl e
      | Inr n \<Rightarrow>
          Inr \<lparr>args = \<lparr>nickname = n,
                       tls_certificate_file = config self ''tls-certificate-file'',
                       tls_certificate_keyfile = config self ''tls-certificate-keyfile'',
                       tls_certificate_password = config self ''tls-certificate-file'',
                       sasl_username = config self ''sasl-username'',
                       sasl_password = config self ''sasl-password'',
                       sasl_identity = config self ''sasl-identity''\<rparr>,
                agent = self\<rparr>)"

subsection \<open>Values used in the examples\<close>

text \<open>An agent named \<open>irc\<close> whose configuration names the channel \<open>#foo\<close>, and its client.\<close>

definition agent_irc :: irc_agent where
  "agent_irc = \<lparr>name = ''irc'', config = [''nickname'' \<mapsto> VStr ''halibot'', ''channel'' \<mapsto> VStr ''#foo'']\<rparr>"

definition client_irc :: irc_client where
  "client_irc =
     \<lparr>args = \<lparr>nickname = VStr ''halibot'', tls_certificate_file = None,
               tls_certificate_keyfile = None, tls_certificate_password = None,
               sasl_username = None, sasl_password = None, sasl_identity = None\<rparr>,
      agent = agent_irc\<rparr>"

text \<open>Two WHOIS answers: identified with account \<open>alice_\<close>, and not identified.\<close>

definition identified_as_alice :: whois_info where
  "identified_as_alice = \<lparr>identified = True, account = Some ''alice_''\<rparr>"

definition not_identified :: whois_info where
  "not_identified = \<lparr>identified = False, account = None\<rparr>"

text \<open>A second agent, named \<open>irc2\<close>, for another server.\<close>

definition agent_irc2 :: irc_agent where
  "agent_irc2 = \<lparr>name = ''irc2'', config = [''nickname'' \<mapsto> VStr ''halibot'', ''channel'' \<mapsto> VStr ''#bar'']\<rparr>"

definition client_irc2 :: irc_client where
  "client_irc2 =
     \<lparr>args = \<lparr>nickname = VStr ''halibot'', tls_certificate_file = None,
               tls_certificate_keyfile = None, tls_certificate_password = None,
               sasl_username = None, sasl_password = None, sasl_identity = None\<rparr>,
      agent = agent_irc2\<rparr>"

text \<open>
  A user who keeps the defaults, asks for the server certificate to be verified and
  enters a certificate file, a keyfile and a password.
\<close>

definition tls_answers :: answers where
  "tls_answers =
     \<lparr>strings = [''TLS certificate file'' \<mapsto> ''cert.pem'',
                 ''TLS certificate keyfile'' \<mapsto> ''key.pem'',
                 ''TLS certificate password'' \<mapsto> ''secret''],
      ints = Map.empty,
      booleans = [''Verify server TLS certificate'' \<mapsto> True]\<rparr>"

section \<open>Identity resolution\<close>

lemma identity_miss:
  "whois_cache s nick = None \<Longrightarrow>
   identity whois nick s =
     Inr (if identified (whois nick) then account (whois nick) else None,
          s\<lparr>whois_cache := (whois_cache s)(nick \<mapsto> whois nick), trace := trace s @ [Whois nick]\<rparr>)"
  by (simp add: identity_def subscript_def dom_def)

lemma identity_hit:
  "whois_cache s nick = Some r \<Longrightarrow>
   identity whois nick s = Inr (if identified r then account r else None, s)"
  by (simp add: identity_def subscript_def dom_def)

lemma on_quit_eq:
  "on_quit channel user s = Inr (s\<lparr>whois_cache := (whois_cache s)(user := None)\<rparr>)"
  by (auto simp: on_quit_def pop_def dom_def fun_upd_idem split: option.splits)

lemma on_nick_change_eq:
  "on_nick_change old new s =
     Inr (s\<lparr>whois_cache := (whois_cache s)(old := None, new := None)\<rparr>)"
  by (auto simp: on_nick_change_def pop_def dom_def fun_upd_idem split: option.splits)

lemma join_each_eq: "join_each cs s = s\<lparr>trace := trace s @ map Join cs\<rparr>"
  by (induction cs arbitrary: s) (simp_all add: join_def)

text \<open>
  C2. For a nickname with no cache entry, \<open>identity\<close> makes one WHOIS query, has stored
  its answer in the cache when it returns, identified or not, and returns the account
  of that answer when the answer is identified and \<open>None\<close> otherwise. For a nickname
  with a cached record, \<open>identity\<close> returns the account of the cached record when that
  record is identified and \<open>None\<close> otherwise, and leaves the cache and the trace as
  they were. It never raises.
\<close>

theorem identity_queries_stores_and_returns_account:
  "(whois_cache s n = None \<longrightarrow>
      identity whois n s =
        Inr (if identified (whois n) then account (whois n) else None,
             s\<lparr>whois_cache := (whois_cache s)(n \<mapsto> whois n),
                trace := trace s @ [Whois n]\<rparr>))
   \<and> (\<forall>rec. whois_cache s n = Some rec \<longrightarrow>
         identity whois n s = Inr (if identified rec then account rec else None, s))"
proof (cases "whois_cache s n")
  case None
  then show ?thesis by (simp add: identity_miss)
next
  case (Some rec)
  then show ?thesis by (simp add: identity_hit)
qed

text \<open>
  With an empty cache and a server that reports \<open>alice\<close> as identified with account
  \<open>alice_\<close>, \<open>identity\<close> queries, stores and returns \<open>alice_\<close>; with a server that
  reports her as not identified it queries, stores and returns \<open>None\<close>. With the
  identified record cached, it returns \<open>alice_\<close> without a query, although the server
  would now answer that she is not identified.
\<close>

theorem identity_queries_stores_and_returns_account_witness:
  "identity (\<lambda>_. identified_as_alice) ''alice'' initial_state =
     Inr (Some ''alice_'',
          \<lparr>whois_cache = [''alice'' \<mapsto> identified_as_alice], trace = [Whois ''alice'']\<rparr>)
   \<and> identity (\<lambda>_. not_identified) ''alice'' initial_state =
     Inr (None, \<lparr>whois_cache = [''alice'' \<mapsto> not_identified], trace = [Whois ''alice'']\<rparr>)
   \<and> identity (\<lambda>_. not_identified) ''alice''
        \<lparr>whois_cache = [''alice'' \<mapsto> identified_as_alice], trace = []\<rparr> =
     Inr (Some ''alice_'', \<lparr>whois_cache = [''alice'' \<mapsto> identified_as_alice], trace = []\<rparr>)"
proof -
  have empty: "whois_cache initial_state ''alice'' = None"
    by (simp add: initial_state_def)
  have cached:
    "whois_cache \<lparr>whois_cache = [''alice'' \<mapsto> identified_as_alice], trace = []\<rparr> ''alice'' =
       Some identified_as_alice"
    by simp
  from identity_queries_stores_and_returns_account
         [of initial_state "''alice''" "\<lambda>_. identified_as_alice"] empty
  have one: "identity (\<lambda>_. identified_as_alice) ''alice'' initial_state =
     Inr (if identified identified_as_alice then account identified_as_alice else None,
          initial_state\<lparr>whois_cache := (whois_cache initial_state)(''alice'' \<mapsto> identified_as_alice),
                          trace := trace initial_state @ [Whois ''alice'']\<rparr>)"
    by blast
  from identity_queries_stores_and_returns_account
         [of initial_state "''alice''" "\<lambda>_. not_identified"] empty
  have two: "identity (\<lambda>_. not_identified) ''alice'' initial_state =
     Inr (if identified not_identified then account not_identified else None,
          initial_state\<lparr>whois_cache := (whois_cache initial_state)(''alice'' \<mapsto> not_identified),
                          trace := trace initial_state @ [Whois ''alice'']\<rparr>)"
    by blast
  from identity_queries_stores_and_returns_account
         [of "\<lparr>whois_cache = [''alice'' \<mapsto> identified_as_alice], trace = []\<rparr>" "''alice''"
             "\<lambda>_. not_identified"] cached
  have three: "identity (\<lambda>_. not_identified) ''alice''
        \<lparr>whois_cache = [''alice'' \<mapsto> identified_as_alice], trace = []\<rparr> =
     Inr (if identified identified_as_alice then account identified_as_alice else None,
          \<lparr>whois_cache = [''alice'' \<mapsto> identified_as_alice], trace = []\<rparr>)"
    by blast
  have ia: "identified identified_as_alice" "account identified_as_alice = Some ''alice_''"
    by (simp_all add: identified_as_alice_def)
  have ni: "\<not> identified not_identified"
    by (simp add: not_identified_def)
  from one two three ia ni show ?thesis
    by (simp add: initial_state_def)
qed

section \<open>Cache hits and invalidation\<close>






text \<open>
  C10. \<open>on_quit\<close> for \<open>u\<close> and \<open>on_nick_change(old, new)\<close> return without raising and make
  no external call. \<open>on_quit\<close> leaves the cache entry of every nickname other than \<open>u\<close>
  as it was, and \<open>on_nick_change\<close> that of every nickname other than \<open>old\<close> and \<open>new\<close>.
  When the cache has no entry for \<open>u\<close>, respectively none for \<open>old\<close> and none for
  \<open>new\<close>, the whole state is left as it was.
\<close>

theorem invalidation_frame:
  "(\<exists>s1. on_quit channel u s = Inr s1 \<and> trace s1 = trace s
         \<and> (\<forall>k. k \<noteq> u \<longrightarrow> whois_cache s1 k = whois_cache s k)
         \<and> (whois_cache s u = None \<longrightarrow> s1 = s))
   \<and> (\<exists>s1. on_nick_change old new s = Inr s1 \<and> trace s1 = trace s
         \<and> (\<forall>k. k \<noteq> old \<and> k \<noteq> new \<longrightarrow> whois_cache s1 k = whois_cache s k)
         \<and> (whois_cache s old = None \<and> whois_cache s new = None \<longrightarrow> s1 = s))"
proof (intro conjI)
  show "\<exists>s1. on_quit channel u s = Inr s1 \<and> trace s1 = trace s
         \<and> (\<forall>k. k \<noteq> u \<longrightarrow> whois_cache s1 k = whois_cache s k)
         \<and> (whois_cache s u = None \<longrightarrow> s1 = s)"
    by (simp add: on_quit_eq fun_upd_idem)
  show "\<exists>s1. on_nick_change old new s = Inr s1 \<and> trace s1 = trace s
         \<and> (\<forall>k. k \<noteq> old \<and> k \<noteq> new \<longrightarrow> whois_cache s1 k = whois_cache s k)
         \<and> (whois_cache s old = None \<and> whois_cache s new = None \<longrightarrow> s1 = s)"
    by (simp add: on_nick_change_eq fun_upd_idem)
qed

text \<open>
  With records cached for \<open>alice\<close> and \<open>bob\<close>: the quit of \<open>alice\<close> keeps the record of
  \<open>bob\<close>, and the quit of \<open>carol\<close>, who has no entry, changes nothing.
\<close>

theorem invalidation_frame_witness:
  "(\<exists>s1. on_quit ''#foo'' ''alice''
            \<lparr>whois_cache = [''alice'' \<mapsto> identified_as_alice, ''bob'' \<mapsto> not_identified],
             trace = []\<rparr> = Inr s1
         \<and> whois_cache s1 ''bob'' = Some not_identified)
   \<and> on_quit ''#foo'' ''carol''
        \<lparr>whois_cache = [''alice'' \<mapsto> identified_as_alice, ''bob'' \<mapsto> not_identified],
         trace = []\<rparr> =
      Inr \<lparr>whois_cache = [''alice'' \<mapsto> identified_as_alice, ''bob'' \<mapsto> not_identified],
           trace = []\<rparr>"
proof -
  let ?s = "\<lparr>whois_cache = [''alice'' \<mapsto> identified_as_alice, ''bob'' \<mapsto> not_identified],
             trace = []\<rparr>"
  from invalidation_frame [of "''#foo''" "''alice''" ?s, THEN conjunct1]
  obtain s1 where q1: "on_quit ''#foo'' ''alice'' ?s = Inr s1"
    and fr: "\<forall>k. k \<noteq> ''alice'' \<longrightarrow> whois_cache s1 k = whois_cache ?s k"
    by (elim exE conjE)
  from fr have "whois_cache s1 ''bob'' = whois_cache ?s ''bob''"
    by (rule allE [of _ "''bob''"]) simp
  then have bob: "whois_cache s1 ''bob'' = Some not_identified"
    by simp
  from invalidation_frame [of "''#foo''" "''carol''" ?s, THEN conjunct1]
  obtain s2 where q2: "on_quit ''#foo'' ''carol'' ?s = Inr s2"
    and same: "whois_cache ?s ''carol'' = None \<longrightarrow> s2 = ?s"
    by (elim exE conjE)
  from same have "s2 = ?s"
    by simp
  with q1 q2 bob show ?thesis
    by simp
qed

section \<open>Joining the configured channels\<close>

text \<open>
  C5. When the \<open>channel\<close> field of the configuration is a string \<open>c\<close>, \<open>on_connect\<close>
  makes one external call, \<open>join(c)\<close>. When it is a list, \<open>on_connect\<close> makes one \<open>join\<close>
  call for each element, in the order of the list, and no other call.
\<close>

theorem on_connect_joins_configured_channels:
  "(config (agent self) ''channel'' = Some (VStr c) \<longrightarrow>
      on_connect self s = Inr (s\<lparr>trace := trace s @ [Join c]\<rparr>))
   \<and> (config (agent self) ''channel'' = Some (VList cs) \<longrightarrow>
      on_connect self s = Inr (s\<lparr>trace := trace s @ map Join cs\<rparr>))"
  by (simp add: on_connect_def subscript_def join_def join_each_eq)

theorem on_connect_joins_configured_channels_witness:
  "on_connect client_irc initial_state = Inr \<lparr>whois_cache = Map.empty, trace = [Join ''#foo'']\<rparr>
   \<and> on_connect
        (client_irc\<lparr>agent := agent_irc\<lparr>config := [''channel'' \<mapsto> VList [''#foo'', ''#bar'']]\<rparr>\<rparr>)
        initial_state =
      Inr \<lparr>whois_cache = Map.empty, trace = [Join ''#foo'', Join ''#bar'']\<rparr>"
proof -
  have single: "config (agent client_irc) ''channel'' = Some (VStr ''#foo'')"
    by (simp add: client_irc_def agent_irc_def)
  have many:
    "config (agent (client_irc\<lparr>agent := agent_irc\<lparr>config := [''channel'' \<mapsto> VList [''#foo'', ''#bar'']]\<rparr>\<rparr>))
       ''channel'' = Some (VList [''#foo'', ''#bar''])"
    by simp
  from on_connect_joins_configured_channels [of client_irc "''#foo''" initial_state] single
  have one: "on_connect client_irc initial_state = Inr (initial_state\<lparr>trace := trace initial_state @ [Join ''#foo'']\<rparr>)"
    by blast
  from on_connect_joins_configured_channels
    [of "client_irc\<lparr>agent := agent_irc\<lparr>config := [''channel'' \<mapsto> VList [''#foo'', ''#bar'']]\<rparr>\<rparr>"
        _ initial_state "[''#foo'', ''#bar'']"] many
  have two: "on_connect
        (client_irc\<lparr>agent := agent_irc\<lparr>config := [''channel'' \<mapsto> VList [''#foo'', ''#bar'']]\<rparr>\<rparr>)
        initial_state = Inr (initial_state\<lparr>trace := trace initial_state @ map Join [''#foo'', ''#bar'']\<rparr>)"
    by blast
  from one two show ?thesis
    by (simp add: initial_state_def)
qed

section \<open>The origin of a dispatched message\<close>

lemma dispatched_append: "dispatched (xs @ ys) = dispatched xs @ dispatched ys"
  by (induction xs rule: dispatched.induct) simp_all

text \<open>
  C6. \<open>on_channel_message\<close> and \<open>on_private_message\<close> return without raising and hand
  exactly one more message to the host. Its origin is the agent's name, then \<open>/\<close>, then
  the target of a channel message, respectively the author of a private message.
\<close>

theorem dispatched_origin:
  "(\<exists>s1 m. on_channel_message whois self target by text s = Inr s1
        \<and> dispatched (trace s1) = dispatched (trace s) @ [m]
        \<and> origin m = name (agent self) @ ''/'' @ target)
   \<and> (\<exists>s1 m. on_private_message self by text s = Inr s1
        \<and> dispatched (trace s1) = dispatched (trace s) @ [m]
        \<and> origin m = name (agent self) @ ''/'' @ by)"
proof (intro conjI)
  show "\<exists>s1 m. on_channel_message whois self target by text s = Inr s1
        \<and> dispatched (trace s1) = dispatched (trace s) @ [m]
        \<and> origin m = name (agent self) @ ''/'' @ target"
    by (cases "whois_cache s by")
       (simp_all add: on_channel_message_def identity_miss identity_hit dispatch_def
          dispatched_append)
  show "\<exists>s1 m. on_private_message self by text s = Inr s1
        \<and> dispatched (trace s1) = dispatched (trace s) @ [m]
        \<and> origin m = name (agent self) @ ''/'' @ by"
    by (simp add: on_private_message_def dispatch_def dispatched_append)
qed

theorem dispatched_origin_witness:
  "(\<exists>s1 m. on_channel_message (\<lambda>_. identified_as_alice) client_irc ''#foo'' ''alice'' ''hi''
              initial_state = Inr s1
        \<and> dispatched (trace s1) = [m] \<and> origin m = ''irc/#foo'')
   \<and> (\<exists>s1 m. on_private_message client_irc ''alice'' ''hi'' initial_state = Inr s1
        \<and> dispatched (trace s1) = [m] \<and> origin m = ''irc/alice'')"
  using dispatched_origin
    [of "\<lambda>_. identified_as_alice" client_irc "''#foo''" "''alice''" "''hi''" initial_state]
  by (simp add: initial_state_def client_irc_def agent_irc_def)

section \<open>Where the code departs from its description\<close>

text \<open>
  C1. A private message from \<open>alice\<close>, whom the server reports as identified with
  account \<open>alice_\<close>: \<open>identity\<close> resolves her to \<open>alice_\<close>, and \<open>on_channel_message\<close>
  dispatches a message with that resolved value after one WHOIS query. The message
  \<open>on_private_message\<close> dispatches carries the coroutine object of the call instead,
  and no WHOIS query is made.
\<close>

theorem on_private_message_identity_unresolved:
  "on_private_message client_irc ''alice'' ''hi'' initial_state =
     Inr \<lparr>whois_cache = Map.empty,
          trace = [Dispatch \<lparr>body = ''hi'', author = ''alice'',
                             msg_identity = Coroutine ''alice'', origin = ''irc/alice''\<rparr>]\<rparr>
   \<and> on_channel_message (\<lambda>_. identified_as_alice) client_irc ''#foo'' ''alice'' ''hi'' initial_state =
     Inr \<lparr>whois_cache = [''alice'' \<mapsto> identified_as_alice],
          trace = [Whois ''alice'',
                   Dispatch \<lparr>body = ''hi'', author = ''alice'',
                             msg_identity = Resolved (Some ''alice_''), origin = ''irc/#foo''\<rparr>]\<rparr>
   \<and> identity (\<lambda>_. identified_as_alice) ''alice'' initial_state =
     Inr (Some ''alice_'',
          \<lparr>whois_cache = [''alice'' \<mapsto> identified_as_alice], trace = [Whois ''alice'']\<rparr>)"
  by (simp add: on_private_message_def on_channel_message_def identity_miss dispatch_def
        initial_state_def client_irc_def agent_irc_def identified_as_alice_def)

text \<open>
  C4. pydle delivers a QUIT as \<open>on_quit(user, message)\<close>: the nickname that quit and
  the text of the quit message. The handler is declared \<open>on_quit(self, channel, user)\<close>,
  so its parameter \<open>user\<close> receives the message text. With a record cached for
  \<open>alice\<close>, her quit with the message \<open>bye\<close> leaves the cache as it was, and the next
  \<open>identity\<close> returns the cached account \<open>alice_\<close> without a WHOIS query, although the
  server now answers that she is not identified. The nick change of \<open>alice\<close> to
  \<open>alicia\<close> at the same state removes her record, and \<open>identity\<close> then queries and
  returns \<open>None\<close>.
\<close>

theorem on_quit_keeps_entry_of_quitting_user:
  "on_quit ''alice'' ''bye'' \<lparr>whois_cache = [''alice'' \<mapsto> identified_as_alice], trace = []\<rparr> =
     Inr \<lparr>whois_cache = [''alice'' \<mapsto> identified_as_alice], trace = []\<rparr>
   \<and> identity (\<lambda>_. not_identified) ''alice''
        \<lparr>whois_cache = [''alice'' \<mapsto> identified_as_alice], trace = []\<rparr> =
     Inr (Some ''alice_'', \<lparr>whois_cache = [''alice'' \<mapsto> identified_as_alice], trace = []\<rparr>)
   \<and> on_nick_change ''alice'' ''alicia''
        \<lparr>whois_cache = [''alice'' \<mapsto> identified_as_alice], trace = []\<rparr> =
     Inr \<lparr>whois_cache = Map.empty, trace = []\<rparr>
   \<and> identity (\<lambda>_. not_identified) ''alice'' \<lparr>whois_cache = Map.empty, trace = []\<rparr> =
     Inr (None, \<lparr>whois_cache = [''alice'' \<mapsto> not_identified], trace = [Whois ''alice'']\<rparr>)"
  by (simp add: on_quit_eq on_nick_change_eq identity_miss identity_hit fun_upd_idem
        identified_as_alice_def not_identified_def)

text \<open>
  C7. The user enters \<open>cert.pem\<close>, \<open>key.pem\<close> and \<open>secret\<close> at the three prompts. The
  third value is stored under the key of the first, \<open>tls-certificate-file\<close>, and
  replaces it: the options hold no certificate file and no key
  \<open>tls-certificate-password\<close>, and \<open>init\<close> passes \<open>secret\<close> as the certificate file.
  With a configuration that holds each value under a key of its own, \<open>init\<close> passes
  the certificate file \<open>cert.pem\<close> as the certificate password.
\<close>

theorem tls_certificate_password_key_reused:
  "(\<exists>opts c. configure tls_answers Map.empty = Inr opts
        \<and> opts ''tls-certificate-file'' = Some (VStr ''secret'')
        \<and> opts ''tls-certificate-keyfile'' = Some (VStr ''key.pem'')
        \<and> opts ''tls-certificate-password'' = None
        \<and> init \<lparr>name = ''irc'', config = opts\<rparr> = Inr c
        \<and> tls_certificate_file (args c) = Some (VStr ''secret'')
        \<and> tls_certificate_password (args c) = Some (VStr ''secret''))
   \<and> (\<exists>c. init \<lparr>name = ''irc'',
                  config = [''nickname'' \<mapsto> VStr ''halibot'',
                            ''tls-certificate-file'' \<mapsto> VStr ''cert.pem'',
                            ''tls-certificate-keyfile'' \<mapsto> VStr ''key.pem'',
                            ''tls-certificate-password'' \<mapsto> VStr ''secret'']\<rparr> = Inr c
        \<and> tls_certificate_file (args c) = Some (VStr ''cert.pem'')
        \<and> tls_certificate_password (args c) = Some (VStr ''cert.pem''))"
  by (simp add: configure_def configure_tls_def configure_sasl_def optionString_def
        optionInt_def optionBoolean_def store_def entered_def subscript_def init_def
        tls_answers_def Let_def dom_def)

text \<open>
  C8. The client of agent \<open>irc\<close> resolves \<open>alice\<close>, whom its server reports as identified
  with account \<open>alice_\<close>. The client of agent \<open>irc2\<close> is then built, and the cache it
  reads already holds that record. When \<open>alice\<close> writes on its channel, on a server that
  reports her as not identified, it makes no WHOIS query and dispatches the message
  with the identity \<open>alice_\<close>.
\<close>

theorem whois_cache_shared_between_clients:
  "init agent_irc = Inr client_irc
   \<and> init agent_irc2 = Inr client_irc2
   \<and> run_handler (\<lambda>_. identified_as_alice) client_irc (Identity ''alice'') initial_state =
       Inr \<lparr>whois_cache = [''alice'' \<mapsto> identified_as_alice], trace = [Whois ''alice'']\<rparr>
   \<and> run_handler (\<lambda>_. not_identified) client_irc2 (OnChannelMessage ''#bar'' ''alice'' ''hi'')
         \<lparr>whois_cache = [''alice'' \<mapsto> identified_as_alice], trace = [Whois ''alice'']\<rparr> =
       Inr \<lparr>whois_cache = [''alice'' \<mapsto> identified_as_alice],
            trace = [Whois ''alice'',
                     Dispatch \<lparr>body = ''hi'', author = ''alice'',
                               msg_identity = Resolved (Some ''alice_''), origin = ''irc2/#bar''\<rparr>]\<rparr>"
  by (simp add: init_def subscript_def agent_irc_def client_irc_def agent_irc2_def
        client_irc2_def on_channel_message_def identity_miss identity_hit dispatch_def
        initial_state_def identified_as_alice_def)

end
